theory Spec2Isabelle
  imports Main "HOL-Library.Monad_Syntax" "HOL-Library.Multiset"
begin

section \<open>Python values\<close>

text \<open>
  The query structure reaches the compiler as the value \<^verbatim>\<open>json.loads\<close> returns:
  dictionaries, lists, strings, integers, booleans and \<^verbatim>\<open>None\<close>. A dictionary is an
  association list in insertion order; a lookup returns the first entry of a key, and a
  Python dictionary holds each key once. Numbers are the integers (a JSON number with a
  fraction is a Python float, whose text form is not modelled). Strings are ASCII text:
  \<^verbatim>\<open>str.upper\<close> and \<^verbatim>\<open>str.lower\<close> change the ASCII letters only.

  A raised exception is the result \<open>None\<close>.
\<close>

datatype json =
    JNull
  | JBool bool
  | JInt int
  | JStr string
  | JList "json list"
  | JDict "(string \<times> json) list"

subsection \<open>Truthiness, \<^verbatim>\<open>dict.get\<close>, \<^verbatim>\<open>in\<close>\<close>

fun py_truthy :: "json \<Rightarrow> bool" where
  "py_truthy JNull = False"
| "py_truthy (JBool b) = b"
| "py_truthy (JInt i) = (i \<noteq> 0)"
| "py_truthy (JStr s) = (s \<noteq> [])"
| "py_truthy (JList xs) = (xs \<noteq> [])"
| "py_truthy (JDict kvs) = (kvs \<noteq> [])"

text \<open>\<^verbatim>\<open>d.get(k, default)\<close> on a dictionary.\<close>

definition dict_get :: "(string \<times> json) list \<Rightarrow> string \<Rightarrow> json \<Rightarrow> json" where
  "dict_get d k dflt = (case map_of d k of None \<Rightarrow> dflt | Some v \<Rightarrow> v)"

text \<open>\<^verbatim>\<open>x.get(k, default)\<close> on any value: only a dictionary has the method
  (\<^verbatim>\<open>AttributeError\<close> otherwise).\<close>

fun py_get :: "json \<Rightarrow> string \<Rightarrow> json \<Rightarrow> json option" where
  "py_get (JDict d) k dflt = Some (dict_get d k dflt)"
| "py_get _ k dflt = None"

text \<open>\<^verbatim>\<open>k in d and d[k]\<close> on a dictionary: the value under \<open>k\<close> when the key is there and
  the value is truthy.\<close>

definition present_truthy :: "(string \<times> json) list \<Rightarrow> string \<Rightarrow> json option" where
  "present_truthy d k =
     (case map_of d k of None \<Rightarrow> None | Some v \<Rightarrow> if py_truthy v then Some v else None)"

subsection \<open>\<^verbatim>\<open>str\<close>, \<^verbatim>\<open>repr\<close> and f-string fields\<close>

fun digits :: "nat \<Rightarrow> string" where
  "digits n =
     (if n < 10 then [char_of (48 + n)] else digits (n div 10) @ [char_of (48 + n mod 10)])"

definition str_int :: "int \<Rightarrow> string" where
  "str_int i = (if i < 0 then CHR ''-'' # digits (nat (- i)) else digits (nat i))"

definition hex_digit :: "nat \<Rightarrow> char" where
  "hex_digit n = (if n < 10 then char_of (48 + n) else char_of (87 + n))"

text \<open>\<^verbatim>\<open>repr\<close> of a string: single quotes, unless the string holds a single quote and no
  double quote; the quote in use and the backslash are escaped.\<close>

definition repr_char :: "char \<Rightarrow> char \<Rightarrow> string" where
  "repr_char q c =
     (if c = q \<or> c = CHR 0x5C then [CHR 0x5C, c]
      else if c = CHR 0x09 then [CHR 0x5C, CHR ''t'']
      else if c = CHR 0x0A then [CHR 0x5C, CHR ''n'']
      else if c = CHR 0x0D then [CHR 0x5C, CHR ''r'']
      else if (of_char c :: nat) < 32 \<or> (of_char c :: nat) \<ge> 127
        then [CHR 0x5C, CHR ''x'', hex_digit (of_char c div 16), hex_digit (of_char c mod 16)]
      else [c])"

definition repr_str :: "string \<Rightarrow> string" where
  "repr_str s =
     (let q = (if CHR 0x27 \<in> set s \<and> CHR 0x22 \<notin> set s then CHR 0x22 else CHR 0x27)
      in [q] @ concat (map (repr_char q) s) @ [q])"

text \<open>\<^verbatim>\<open>sep.join(xs)\<close> on a list of strings.\<close>

fun join :: "string \<Rightarrow> string list \<Rightarrow> string" where
  "join sep [] = []"
| "join sep [x] = x"
| "join sep (x # y # ys) = x @ sep @ join sep (y # ys)"

fun py_repr :: "json \<Rightarrow> string"
  and py_repr_list :: "json list \<Rightarrow> string list"
  and py_repr_items :: "(string \<times> json) list \<Rightarrow> string list" where
  "py_repr JNull = ''None''"
| "py_repr (JBool b) = (if b then ''True'' else ''False'')"
| "py_repr (JInt i) = str_int i"
| "py_repr (JStr s) = repr_str s"
| "py_repr (JList xs) = ''['' @ join '', '' (py_repr_list xs) @ '']''"
| "py_repr (JDict kvs) = ''{'' @ join '', '' (py_repr_items kvs) @ ''}''"
| "py_repr_list [] = []"
| "py_repr_list (x # xs) = py_repr x # py_repr_list xs"
| "py_repr_items [] = []"
| "py_repr_items (kv # kvs) = (repr_str (fst kv) @ '': '' @ py_repr (snd kv)) # py_repr_items kvs"

text \<open>\<^verbatim>\<open>str(v)\<close>, which is also what an f-string field \<^verbatim>\<open>{v}\<close> inserts: a string is
  itself, anything else is its \<^verbatim>\<open>repr\<close>.\<close>

fun py_str :: "json \<Rightarrow> string" where
  "py_str (JStr s) = s"
| "py_str v = py_repr v"

subsection \<open>String methods\<close>

definition upper_char :: "char \<Rightarrow> char" where
  "upper_char c =
     (let n = (of_char c :: nat) in if 97 \<le> n \<and> n \<le> 122 then char_of (n - 32) else c)"

definition lower_char :: "char \<Rightarrow> char" where
  "lower_char c =
     (let n = (of_char c :: nat) in if 65 \<le> n \<and> n \<le> 90 then char_of (n + 32) else c)"

definition upper :: "string \<Rightarrow> string" where
  "upper s = map upper_char s"

definition lower :: "string \<Rightarrow> string" where
  "lower s = map lower_char s"

definition startswith :: "string \<Rightarrow> string \<Rightarrow> bool" where
  "startswith s p = (take (length p) s = p)"

text \<open>\<^verbatim>\<open>v.upper()\<close> on any value: only a string has the method.\<close>

fun py_upper :: "json \<Rightarrow> string option" where
  "py_upper (JStr s) = Some (upper s)"
| "py_upper _ = None"

text \<open>The elements of a value that \<^verbatim>\<open>str.join\<close> is given, when every one is a string
  (\<^verbatim>\<open>TypeError\<close> otherwise). A list gives its elements, a string its characters, a
  dictionary its keys; nothing else can be iterated.\<close>

fun the_strs :: "json list \<Rightarrow> string list option" where
  "the_strs [] = Some []"
| "the_strs (JStr s # xs) = map_option ((#) s) (the_strs xs)"
| "the_strs (_ # xs) = None"

fun py_join :: "string \<Rightarrow> json \<Rightarrow> string option" where
  "py_join sep (JList xs) = map_option (join sep) (the_strs xs)"
| "py_join sep (JStr s) = Some (join sep (map (\<lambda>c. [c]) s))"
| "py_join sep (JDict kvs) = Some (join sep (map fst kvs))"
| "py_join sep _ = None"

text \<open>The elements a \<^verbatim>\<open>for\<close> loop runs over.\<close>

fun py_iter :: "json \<Rightarrow> json list option" where
  "py_iter (JList xs) = Some xs"
| "py_iter (JStr s) = Some (map (\<lambda>c. JStr [c]) s)"
| "py_iter (JDict kvs) = Some (map (\<lambda>kv. JStr (fst kv)) kvs)"
| "py_iter _ = None"

section \<open>The query compiler\<close>

subsection \<open>\<^verbatim>\<open>build_query\<close>\<close>

text \<open>The body of the loop over the joins: one clause is appended to \<open>sql\<close>.\<close>

definition join_step :: "json \<Rightarrow> string \<Rightarrow> json \<Rightarrow> string option" where
  "join_step table sql jn = do {
     join_table \<leftarrow> py_get jn ''table'' (JStr '''');
     ty \<leftarrow> py_get jn ''type'' (JStr ''INNER'');
     join_type \<leftarrow> py_upper ty;
     join_conditions \<leftarrow> py_get jn ''on'' (JDict []);
     left_col \<leftarrow> py_get join_conditions ''left_column'' (JStr '''');
     right_col \<leftarrow> py_get join_conditions ''right_column'' (JStr '''');
     Some (sql @ '' '' @ join_type @ '' JOIN '' @ py_str join_table @ '' ON '' @ py_str table
           @ ''.'' @ py_str left_col @ '' = '' @ py_str join_table @ ''.'' @ py_str right_col)
   }"

fun join_loop :: "json \<Rightarrow> json list \<Rightarrow> string \<Rightarrow> string option" where
  "join_loop table [] sql = Some sql"
| "join_loop table (jn # rest) sql = do {
     sql' \<leftarrow> join_step table sql jn;
     join_loop table rest sql'
   }"

text \<open>The formatted value of a condition: a string that does not start with
  \<^verbatim>\<open>select\<close> once lower-cased goes between single quotes, anything else is
  \<^verbatim>\<open>str(value)\<close>.\<close>

fun format_value :: "json \<Rightarrow> string" where
  "format_value (JStr s) =
     (if \<not> startswith (lower s) ''select'' then [CHR 0x27] @ s @ [CHR 0x27] else py_str (JStr s))"
| "format_value v = py_str v"

text \<open>The body of the loop over the conditions: one entry is appended to the list.\<close>

definition condition_step :: "string list \<Rightarrow> json \<Rightarrow> string list option" where
  "condition_step conditions condition = do {
     column \<leftarrow> py_get condition ''column'' (JStr '''');
     operator \<leftarrow> py_get condition ''operator'' (JStr ''='');
     val \<leftarrow> py_get condition ''value'' (JStr '''');
     Some (conditions @ [py_str column @ '' '' @ py_str operator @ '' '' @ format_value val])
   }"

fun condition_loop :: "json list \<Rightarrow> string list \<Rightarrow> string list option" where
  "condition_loop [] conditions = Some conditions"
| "condition_loop (c # rest) conditions = do {
     conditions' \<leftarrow> condition_step conditions c;
     condition_loop rest conditions'
   }"

definition order_step :: "string list \<Rightarrow> json \<Rightarrow> string list option" where
  "order_step order_clauses order = do {
     column \<leftarrow> py_get order ''column'' (JStr '''');
     direction \<leftarrow> py_get order ''direction'' (JStr ''ASC'');
     Some (order_clauses @ [py_str column @ '' '' @ py_str direction])
   }"

fun order_loop :: "json list \<Rightarrow> string list \<Rightarrow> string list option" where
  "order_loop [] order_clauses = Some order_clauses"
| "order_loop (order # rest) order_clauses = do {
     order_clauses' \<leftarrow> order_step order_clauses order;
     order_loop rest order_clauses'
   }"

text \<open>The five optional parts, each taking the statement built so far and returning it
  extended.\<close>

definition add_joins :: "(string \<times> json) list \<Rightarrow> json \<Rightarrow> string \<Rightarrow> string option" where
  "add_joins d table sql =
     (case present_truthy d ''joins'' of
        None \<Rightarrow> Some sql
      | Some js \<Rightarrow> do { xs \<leftarrow> py_iter js; join_loop table xs sql })"

definition add_where :: "(string \<times> json) list \<Rightarrow> string \<Rightarrow> string option" where
  "add_where d sql =
     (case present_truthy d ''conditions'' of
        None \<Rightarrow> Some sql
      | Some cs \<Rightarrow> do {
          xs \<leftarrow> py_iter cs;
          conditions \<leftarrow> condition_loop xs [];
          Some (sql @ '' WHERE '' @ join '' AND '' conditions)
        })"

definition add_group_by :: "(string \<times> json) list \<Rightarrow> string \<Rightarrow> string option" where
  "add_group_by d sql =
     (case present_truthy d ''group_by'' of
        None \<Rightarrow> Some sql
      | Some g \<Rightarrow> do {
          group_by_cols \<leftarrow> py_join '', '' g;
          Some (sql @ '' GROUP BY '' @ group_by_cols)
        })"

definition add_order_by :: "(string \<times> json) list \<Rightarrow> string \<Rightarrow> string option" where
  "add_order_by d sql =
     (case present_truthy d ''order_by'' of
        None \<Rightarrow> Some sql
      | Some os \<Rightarrow> do {
          xs \<leftarrow> py_iter os;
          order_clauses \<leftarrow> order_loop xs [];
          Some (sql @ '' ORDER BY '' @ join '', '' order_clauses)
        })"

definition add_limit :: "(string \<times> json) list \<Rightarrow> string \<Rightarrow> string option" where
  "add_limit d sql =
     (case present_truthy d ''limit'' of
        None \<Rightarrow> Some sql
      | Some l \<Rightarrow> Some (sql @ '' LIMIT '' @ py_str l))"

fun build_query :: "json \<Rightarrow> string option" where
  "build_query (JDict d) = do {
     columns \<leftarrow> py_join '', '' (dict_get d ''columns'' (JList [JStr ''*'']));
     let table = dict_get d ''table'' (JStr '''');
     if \<not> py_truthy table then Some ''-- Error: No table specified''
     else do {
       let sql = ''SELECT '' @ columns @ '' FROM '' @ py_str table;
       sql \<leftarrow> add_joins d table sql;
       sql \<leftarrow> add_where d sql;
       sql \<leftarrow> add_group_by d sql;
       sql \<leftarrow> add_order_by d sql;
       add_limit d sql
     }
   }"
| "build_query _ = None"

subsection \<open>\<^verbatim>\<open>build_sql_query\<close>\<close>

text \<open>The second compiler is written out on its own. Its join loop looks the \<^verbatim>\<open>on\<close>
  field up once for each column, and it has no test of the table.\<close>

definition sql_join_step :: "json \<Rightarrow> string \<Rightarrow> json \<Rightarrow> string option" where
  "sql_join_step table sql jn = do {
     join_table \<leftarrow> py_get jn ''table'' (JStr '''');
     ty \<leftarrow> py_get jn ''type'' (JStr ''INNER'');
     join_type \<leftarrow> py_upper ty;
     on_left \<leftarrow> py_get jn ''on'' (JDict []);
     left_col \<leftarrow> py_get on_left ''left_column'' (JStr '''');
     on_right \<leftarrow> py_get jn ''on'' (JDict []);
     right_col \<leftarrow> py_get on_right ''right_column'' (JStr '''');
     Some (sql @ '' '' @ join_type @ '' JOIN '' @ py_str join_table @ '' ON '' @ py_str table
           @ ''.'' @ py_str left_col @ '' = '' @ py_str join_table @ ''.'' @ py_str right_col)
   }"

fun sql_join_loop :: "json \<Rightarrow> json list \<Rightarrow> string \<Rightarrow> string option" where
  "sql_join_loop table [] sql = Some sql"
| "sql_join_loop table (jn # rest) sql = do {
     sql' \<leftarrow> sql_join_step table sql jn;
     sql_join_loop table rest sql'
   }"

definition sql_condition_step :: "string list \<Rightarrow> json \<Rightarrow> string list option" where
  "sql_condition_step conditions condition = do {
     column \<leftarrow> py_get condition ''column'' (JStr '''');
     operator \<leftarrow> py_get condition ''operator'' (JStr ''='');
     val \<leftarrow> py_get condition ''value'' (JStr '''');
     Some (conditions @ [py_str column @ '' '' @ py_str operator @ '' '' @ format_value val])
   }"

fun sql_condition_loop :: "json list \<Rightarrow> string list \<Rightarrow> string list option" where
  "sql_condition_loop [] conditions = Some conditions"
| "sql_condition_loop (c # rest) conditions = do {
     conditions' \<leftarrow> sql_condition_step conditions c;
     sql_condition_loop rest conditions'
   }"

definition sql_order_step :: "string list \<Rightarrow> json \<Rightarrow> string list option" where
  "sql_order_step order_clauses order = do {
     column \<leftarrow> py_get order ''column'' (JStr '''');
     direction \<leftarrow> py_get order ''direction'' (JStr ''ASC'');
     Some (order_clauses @ [py_str column @ '' '' @ py_str direction])
   }"

fun sql_order_loop :: "json list \<Rightarrow> string list \<Rightarrow> string list option" where
  "sql_order_loop [] order_clauses = Some order_clauses"
| "sql_order_loop (order # rest) order_clauses = do {
     order_clauses' \<leftarrow> sql_order_step order_clauses order;
     sql_order_loop rest order_clauses'
   }"

definition sql_add_joins :: "(string \<times> json) list \<Rightarrow> json \<Rightarrow> string \<Rightarrow> string option" where
  "sql_add_joins d table sql =
     (case present_truthy d ''joins'' of
        None \<Rightarrow> Some sql
      | Some js \<Rightarrow> do { xs \<leftarrow> py_iter js; sql_join_loop table xs sql })"

definition sql_add_where :: "(string \<times> json) list \<Rightarrow> string \<Rightarrow> string option" where
  "sql_add_where d sql =
     (case present_truthy d ''conditions'' of
        None \<Rightarrow> Some sql
      | Some cs \<Rightarrow> do {
          xs \<leftarrow> py_iter cs;
          conditions \<leftarrow> sql_condition_loop xs [];
          Some (sql @ '' WHERE '' @ join '' AND '' conditions)
        })"

definition sql_add_group_by :: "(string \<times> json) list \<Rightarrow> string \<Rightarrow> string option" where
  "sql_add_group_by d sql =
     (case present_truthy d ''group_by'' of
        None \<Rightarrow> Some sql
      | Some g \<Rightarrow> do {
          cols \<leftarrow> py_join '', '' g;
          Some (sql @ '' GROUP BY '' @ cols)
        })"

definition sql_add_order_by :: "(string \<times> json) list \<Rightarrow> string \<Rightarrow> string option" where
  "sql_add_order_by d sql =
     (case present_truthy d ''order_by'' of
        None \<Rightarrow> Some sql
      | Some os \<Rightarrow> do {
          xs \<leftarrow> py_iter os;
          order_clauses \<leftarrow> sql_order_loop xs [];
          Some (sql @ '' ORDER BY '' @ join '', '' order_clauses)
        })"

definition sql_add_limit :: "(string \<times> json) list \<Rightarrow> string \<Rightarrow> string option" where
  "sql_add_limit d sql =
     (case present_truthy d ''limit'' of
        None \<Rightarrow> Some sql
      | Some l \<Rightarrow> Some (sql @ '' LIMIT '' @ py_str l))"

fun build_sql_query :: "json \<Rightarrow> string option" where
  "build_sql_query (JDict d) = do {
     columns \<leftarrow> py_join '', '' (dict_get d ''columns'' (JList [JStr ''*'']));
     let table = dict_get d ''table'' (JStr '''');
     let sql = ''SELECT '' @ columns @ '' FROM '' @ py_str table;
     sql \<leftarrow> sql_add_joins d table sql;
     sql \<leftarrow> sql_add_where d sql;
     sql \<leftarrow> sql_add_group_by d sql;
     sql \<leftarrow> sql_add_order_by d sql;
     sql_add_limit d sql
   }"
| "build_sql_query _ = None"

section \<open>The query executor\<close>

text \<open>
  The database engine is outside the program. A connection is a function from the
  statements it has been given so far (the last one being the one to run) to what
  \<^verbatim>\<open>conn.execute\<close> does then: it raises an exception, given by its text \<^verbatim>\<open>str(e)\<close>,
  or returns a cursor. A cursor has the rows \<^verbatim>\<open>fetchall()\<close> returns (or the text of the
  exception it raises) and the column names of its \<^verbatim>\<open>description\<close>, which is
  \<^verbatim>\<open>None\<close> for a statement without a result set. The values in a row are taken among
  the values above.

  \<^verbatim>\<open>DatabaseQueryAgent.execute_query\<close> and \<^verbatim>\<open>SimplifiedDBAgent.execute_query\<close> have
  the same statements; \<open>execute_query\<close> below is both.
\<close>

record cursor =
  fetchall :: "string + json list list"
  description :: "string list option"

type_synonym connection = "json list \<Rightarrow> string + cursor"

type_synonym row = "(string \<times> json) list"

text \<open>\<^verbatim>\<open>d[k] = v\<close>: a key already there keeps its place and takes the new value.\<close>

fun dict_set :: "(string \<times> json) list \<Rightarrow> string \<Rightarrow> json \<Rightarrow> (string \<times> json) list" where
  "dict_set [] k v = [(k, v)]"
| "dict_set ((k', v') # d) k v = (if k' = k then (k, v) # d else (k', v') # dict_set d k v)"

text \<open>\<^verbatim>\<open>dict(pairs)\<close>.\<close>

definition py_dict :: "(string \<times> json) list \<Rightarrow> (string \<times> json) list" where
  "py_dict pairs = foldl (\<lambda>d kv. dict_set d (fst kv) (snd kv)) [] pairs"

text \<open>The body of the \<^verbatim>\<open>try\<close>: the statement is run twice, once for the rows and once
  for the column names. The result is the exception's text or the rows, with the
  statements the connection has been given.\<close>

definition try_execute :: "connection \<Rightarrow> json list \<Rightarrow> json \<Rightarrow> (string + row list) \<times> json list" where
  "try_execute conn log query =
     (case conn (log @ [query]) of
        Inl e \<Rightarrow> (Inl e, log @ [query])
      | Inr cur1 \<Rightarrow>
          (case fetchall cur1 of
             Inl e \<Rightarrow> (Inl e, log @ [query])
           | Inr result \<Rightarrow>
               (case conn (log @ [query, query]) of
                  Inl e \<Rightarrow> (Inl e, log @ [query, query])
                | Inr cur2 \<Rightarrow>
                    (case description cur2 of
                       None \<Rightarrow>
                         (Inl ([CHR 0x27] @ ''NoneType'' @ [CHR 0x27] @ '' object is not iterable''),
                          log @ [query, query])
                     | Some columns \<Rightarrow>
                         (Inr (map (\<lambda>row. py_dict (zip columns row)) result),
                          log @ [query, query])))))"

definition execute_query :: "connection \<Rightarrow> json list \<Rightarrow> json \<Rightarrow> row list \<times> json list" where
  "execute_query conn log query =
     (case try_execute conn log query of
        (Inr rows, log') \<Rightarrow> (rows, log')
      | (Inl e, log') \<Rightarrow> ([[(''error'', JStr e)]], log'))"

section \<open>The orchestrator\<close>

text \<open>
  The model service is outside the program too. A tool call carries its identifier, the
  name of the function and the value \<^verbatim>\<open>json.loads\<close> returns for its argument text
  (\<open>None\<close> when \<^verbatim>\<open>json.loads\<close> raises). A response message has its content, which may be
  \<^verbatim>\<open>None\<close>, and its tool calls (the empty list when there are none). A request has the
  messages, the names of the tools offered (\<open>None\<close> when the \<^verbatim>\<open>tools\<close> parameter is not
  given) and the tool choice (\<open>None\<close> when it is not given). The model is a function from
  the requests made so far, the last one being the current one, to its response.

  A run starts once the agent is built: the database is open and the text of the schema
  has been read.
\<close>

record tool_call =
  tc_id :: string
  tc_name :: string
  tc_arguments :: "json option"

record response =
  content :: "string option"
  tool_calls :: "tool_call list"

datatype tool_choice = Auto | Function string

text \<open>A message of the conversation. The content of a tool message is
  \<^verbatim>\<open>json.dumps\<close> of the value it holds.\<close>

datatype message =
    System string
  | User string
  | Assistant response
  | Tool string string json

record request =
  req_messages :: "message list"
  req_tools :: "string list option"
  req_tool_choice :: "tool_choice option"

type_synonym model = "request list \<Rightarrow> response"

definition tools :: "string list" where
  "tools = [''query_database'', ''execute_query'']"

text \<open>What a run has done so far: the conversation, the requests sent to the model and
  the statements given to the connection.\<close>

record io_log =
  messages :: "message list"
  requests :: "request list"
  statements :: "json list"

text \<open>\<^verbatim>\<open>client.chat.completions.create(...).choices[0].message\<close> with the current
  messages.\<close>

definition create ::
  "model \<Rightarrow> 'a io_log_scheme \<Rightarrow> string list option \<Rightarrow> tool_choice option
     \<Rightarrow> response \<times> 'a io_log_scheme" where
  "create llm st tls choice =
     (let rs = requests st @ [\<lparr>req_messages = messages st, req_tools = tls, req_tool_choice = choice\<rparr>]
      in (llm rs, st\<lparr>requests := rs\<rparr>))"

definition rows_json :: "row list \<Rightarrow> json" where
  "rows_json rows = JList (map JDict rows)"

subsection \<open>\<^verbatim>\<open>process_question\<close>\<close>

record results =
  question :: string
  sql_query :: "string option"
  query_results :: "row list option"
  final_answer :: "string option"

record pq_state = io_log +
  results :: results

text \<open>The body of the loop over the tool calls of the follow-up message.\<close>

definition exec_call_step :: "connection \<Rightarrow> pq_state \<Rightarrow> tool_call \<Rightarrow> pq_state option" where
  "exec_call_step conn st exec_call =
     (if tc_name exec_call = ''execute_query'' then do {
        exec_args \<leftarrow> tc_arguments exec_call;
        query \<leftarrow> py_get exec_args ''query'' JNull;
        let (rows, log) = execute_query conn (statements st) query;
        Some (st\<lparr>statements := log,
                 results := (results st)\<lparr>query_results := Some rows\<rparr>,
                 messages := messages st @ [Tool (tc_id exec_call) ''execute_query'' (rows_json rows)]\<rparr>)
      } else Some st)"

fun exec_call_loop :: "connection \<Rightarrow> tool_call list \<Rightarrow> pq_state \<Rightarrow> pq_state option" where
  "exec_call_loop conn [] st = Some st"
| "exec_call_loop conn (exec_call # rest) st = do {
     st' \<leftarrow> exec_call_step conn st exec_call;
     exec_call_loop conn rest st'
   }"

text \<open>The body of the loop over the tool calls of the first response.\<close>

definition tool_call_step ::
  "model \<Rightarrow> connection \<Rightarrow> pq_state \<Rightarrow> tool_call \<Rightarrow> pq_state option" where
  "tool_call_step llm conn st tool_call = do {
     function_args \<leftarrow> tc_arguments tool_call;
     if tc_name tool_call = ''query_database'' then do {
       table \<leftarrow> py_get function_args ''table'' JNull;
       columns \<leftarrow> py_get function_args ''columns'' (JList [JStr ''*'']);
       conditions \<leftarrow> py_get function_args ''conditions'' (JList []);
       joins \<leftarrow> py_get function_args ''joins'' (JList []);
       group_by \<leftarrow> py_get function_args ''group_by'' (JList []);
       order_by \<leftarrow> py_get function_args ''order_by'' (JList []);
       limit \<leftarrow> py_get function_args ''limit'' JNull;
       let query_structure = JDict
         [(''table'', table), (''columns'', columns), (''conditions'', conditions),
          (''joins'', joins), (''group_by'', group_by), (''order_by'', order_by),
          (''limit'', limit)];
       sql \<leftarrow> build_sql_query query_structure;
       let st = st\<lparr>results := (results st)\<lparr>sql_query := Some sql\<rparr>,
                   messages := messages st
                     @ [Tool (tc_id tool_call) ''query_database'' (JDict [(''sql'', JStr sql)])]\<rparr>;
       let (follow_message, st) =
         create llm st (Some tools) (Some (Function ''execute_query''));
       let st = st\<lparr>messages := messages st @ [Assistant follow_message]\<rparr>;
       exec_call_loop conn (tool_calls follow_message) st
     } else Some st
   }"

fun tool_call_loop ::
  "model \<Rightarrow> connection \<Rightarrow> tool_call list \<Rightarrow> pq_state \<Rightarrow> pq_state option" where
  "tool_call_loop llm conn [] st = Some st"
| "tool_call_loop llm conn (tool_call # rest) st = do {
     st' \<leftarrow> tool_call_step llm conn st tool_call;
     tool_call_loop llm conn rest st'
   }"

text \<open>The system message.\<close>

definition pq_system :: "string \<Rightarrow> message" where
  "pq_system schema_description =
     System (''You are a database assistant. Based on the user'' @ [CHR 0x27]
             @ ''s question, determine the appropriate database query to execute.''
             @ [CHR 0x0A, CHR 0x0A] @ schema_description)"

text \<open>The run on a question, for a model, a connection and the text of the schema. The
  dictionary the source returns is \<open>results\<close> of the final state.\<close>

definition process_question ::
  "model \<Rightarrow> connection \<Rightarrow> string \<Rightarrow> string \<Rightarrow> pq_state option" where
  "process_question llm conn schema_description q = do {
     let st = \<lparr>messages = [pq_system schema_description, User q],
               requests = [], statements = [],
               results = \<lparr>question = q, sql_query = None, query_results = None,
                          final_answer = None\<rparr>\<rparr>;
     let (response_message, st) = create llm st (Some tools) (Some Auto);
     let st = st\<lparr>messages := messages st @ [Assistant response_message]\<rparr>;
     st \<leftarrow> tool_call_loop llm conn (tool_calls response_message) st;
     let (final_response, st) = create llm st None None;
     Some (st\<lparr>results := (results st)\<lparr>final_answer := content final_response\<rparr>\<rparr>)
   }"

subsection \<open>\<^verbatim>\<open>process_user_question\<close>\<close>

record uq_state = io_log +
  uq_query_results :: "row list option"

record uq_return =
  answer :: "string option"
  ret_query_results :: "row list option"

definition follow_tool_call_step ::
  "connection \<Rightarrow> uq_state \<Rightarrow> tool_call \<Rightarrow> uq_state option" where
  "follow_tool_call_step conn st follow_tool_call =
     (if tc_name follow_tool_call = ''execute_query'' then do {
        execute_args \<leftarrow> tc_arguments follow_tool_call;
        query \<leftarrow> py_get execute_args ''query'' JNull;
        let (rows, log) = execute_query conn (statements st) query;
        Some (st\<lparr>statements := log,
                 uq_query_results := Some rows,
                 messages := messages st
                   @ [Tool (tc_id follow_tool_call) ''execute_query'' (rows_json rows)]\<rparr>)
      } else Some st)"

fun follow_tool_call_loop ::
  "connection \<Rightarrow> tool_call list \<Rightarrow> uq_state \<Rightarrow> uq_state option" where
  "follow_tool_call_loop conn [] st = Some st"
| "follow_tool_call_loop conn (follow_tool_call # rest) st = do {
     st' \<leftarrow> follow_tool_call_step conn st follow_tool_call;
     follow_tool_call_loop conn rest st'
   }"

definition uq_tool_call_step ::
  "model \<Rightarrow> connection \<Rightarrow> uq_state \<Rightarrow> tool_call \<Rightarrow> uq_state option" where
  "uq_tool_call_step llm conn st tool_call = do {
     function_args \<leftarrow> tc_arguments tool_call;
     if tc_name tool_call = ''query_database'' then do {
       sql \<leftarrow> build_query function_args;
       let st = st\<lparr>messages := messages st
                     @ [Tool (tc_id tool_call) ''query_database'' (JDict [(''query'', JStr sql)])]\<rparr>;
       let (follow_up_message, st) = create llm st (Some tools) (Some Auto);
       let st = st\<lparr>messages := messages st @ [Assistant follow_up_message]\<rparr>;
       follow_tool_call_loop conn (tool_calls follow_up_message) st
     } else if tc_name tool_call = ''execute_query'' then do {
       query \<leftarrow> py_get function_args ''query'' JNull;
       let (rows, log) = execute_query conn (statements st) query;
       Some (st\<lparr>statements := log,
                uq_query_results := Some rows,
                messages := messages st
                  @ [Tool (tc_id tool_call) ''execute_query'' (rows_json rows)]\<rparr>)
     } else Some st
   }"

fun uq_tool_call_loop ::
  "model \<Rightarrow> connection \<Rightarrow> tool_call list \<Rightarrow> uq_state \<Rightarrow> uq_state option" where
  "uq_tool_call_loop llm conn [] st = Some st"
| "uq_tool_call_loop llm conn (tool_call # rest) st = do {
     st' \<leftarrow> uq_tool_call_step llm conn st tool_call;
     uq_tool_call_loop llm conn rest st'
   }"

definition uq_system :: "string \<Rightarrow> message" where
  "uq_system schema_description =
     System (''You are a helpful database assistant that helps users query a database. Here is the database schema:''
             @ [CHR 0x0A, CHR 0x0A] @ schema_description)"

text \<open>The run returns its dictionary together with the final state.\<close>

definition process_user_question ::
  "model \<Rightarrow> connection \<Rightarrow> string \<Rightarrow> string \<Rightarrow> (uq_return \<times> uq_state) option" where
  "process_user_question llm conn schema_description q = do {
     let st = \<lparr>messages = [uq_system schema_description, User q],
               requests = [], statements = [],
               uq_query_results = None\<rparr>;
     let (response_message, st) = create llm st (Some tools) (Some Auto);
     let st = st\<lparr>messages := messages st @ [Assistant response_message]\<rparr>;
     st \<leftarrow> uq_tool_call_loop llm conn (tool_calls response_message) st;
     let (final_response, st) = create llm st None None;
     Some (\<lparr>answer = content final_response, ret_query_results = uq_query_results st\<rparr>, st)
   }"

section \<open>Well-typed query structures and the text of each clause\<close>

text \<open>
  The tool schema types the fields of a query structure and requires few of them. A
  dictionary is well typed here when each field that is there has the type the schema
  gives it, as far as the compiler depends on it: \<^verbatim>\<open>columns\<close> and \<^verbatim>\<open>group_by\<close> are
  lists of strings; \<^verbatim>\<open>joins\<close>, \<^verbatim>\<open>conditions\<close> and \<^verbatim>\<open>order_by\<close> are lists of
  dictionaries, the \<^verbatim>\<open>type\<close> of a join being a string and its \<^verbatim>\<open>on\<close> a dictionary.
  Any of these fields but \<^verbatim>\<open>columns\<close> may also hold a falsy value, and any field of
  a join, a condition or an ordering may be missing.
\<close>

fun is_dict :: "json \<Rightarrow> bool" where
  "is_dict (JDict d) = True"
| "is_dict _ = False"

fun is_str :: "json \<Rightarrow> bool" where
  "is_str (JStr s) = True"
| "is_str _ = False"

text \<open>A field of a dictionary, with the value that stands for a missing one.\<close>

fun field :: "json \<Rightarrow> string \<Rightarrow> json \<Rightarrow> json" where
  "field (JDict d) k dflt = dict_get d k dflt"
| "field _ k dflt = dflt"

text \<open>The elements of a list field: none when the field is missing or falsy.\<close>

definition elems :: "(string \<times> json) list \<Rightarrow> string \<Rightarrow> json list" where
  "elems d k = (case present_truthy d k of Some (JList xs) \<Rightarrow> xs | _ \<Rightarrow> [])"

definition list_field :: "(json \<Rightarrow> bool) \<Rightarrow> (string \<times> json) list \<Rightarrow> string \<Rightarrow> bool" where
  "list_field P d k =
     (case present_truthy d k of
        None \<Rightarrow> True
      | Some (JList xs) \<Rightarrow> list_all P xs
      | Some _ \<Rightarrow> False)"

definition wf_join :: "json \<Rightarrow> bool" where
  "wf_join j =
     (is_dict j \<and> is_str (field j ''type'' (JStr ''INNER'')) \<and> is_dict (field j ''on'' (JDict [])))"

definition wf_query :: "(string \<times> json) list \<Rightarrow> bool" where
  "wf_query d =
     ((case map_of d ''columns'' of
         None \<Rightarrow> True
       | Some (JList xs) \<Rightarrow> list_all is_str xs
       | Some _ \<Rightarrow> False)
      \<and> list_field wf_join d ''joins''
      \<and> list_field is_dict d ''conditions''
      \<and> list_field is_str d ''group_by''
      \<and> list_field is_dict d ''order_by'')"

text \<open>The text of each clause, as the specification words it: the projection is the
  columns joined by a comma, or \<^verbatim>\<open>*\<close> without a \<^verbatim>\<open>columns\<close> field; there is one
  \<^verbatim>\<open>JOIN\<close> clause for each join; \<^verbatim>\<open>WHERE\<close>, \<^verbatim>\<open>GROUP BY\<close> and \<^verbatim>\<open>ORDER BY\<close> are there
  when their list has an element, \<^verbatim>\<open>LIMIT\<close> when the limit is truthy.\<close>

definition projection :: "(string \<times> json) list \<Rightarrow> string" where
  "projection d =
     (case map_of d ''columns'' of Some (JList xs) \<Rightarrow> join '', '' (map py_str xs) | _ \<Rightarrow> ''*'')"

definition join_clause :: "json \<Rightarrow> json \<Rightarrow> string" where
  "join_clause table j =
     '' '' @ upper (py_str (field j ''type'' (JStr ''INNER''))) @ '' JOIN ''
     @ py_str (field j ''table'' (JStr [])) @ '' ON '' @ py_str table @ ''.''
     @ py_str (field (field j ''on'' (JDict [])) ''left_column'' (JStr [])) @ '' = ''
     @ py_str (field j ''table'' (JStr [])) @ ''.''
     @ py_str (field (field j ''on'' (JDict [])) ''right_column'' (JStr []))"

definition condition_text :: "json \<Rightarrow> string" where
  "condition_text c =
     py_str (field c ''column'' (JStr [])) @ '' '' @ py_str (field c ''operator'' (JStr ''=''))
     @ '' '' @ format_value (field c ''value'' (JStr []))"

definition order_text :: "json \<Rightarrow> string" where
  "order_text ord =
     py_str (field ord ''column'' (JStr [])) @ '' ''
     @ py_str (field ord ''direction'' (JStr ''ASC''))"

definition join_clauses :: "(string \<times> json) list \<Rightarrow> string" where
  "join_clauses d =
     concat (map (join_clause (dict_get d ''table'' (JStr []))) (elems d ''joins''))"

definition where_clause :: "(string \<times> json) list \<Rightarrow> string" where
  "where_clause d =
     (if elems d ''conditions'' = [] then []
      else '' WHERE '' @ join '' AND '' (map condition_text (elems d ''conditions'')))"

definition group_by_clause :: "(string \<times> json) list \<Rightarrow> string" where
  "group_by_clause d =
     (if elems d ''group_by'' = [] then []
      else '' GROUP BY '' @ join '', '' (map py_str (elems d ''group_by'')))"

definition order_by_clause :: "(string \<times> json) list \<Rightarrow> string" where
  "order_by_clause d =
     (if elems d ''order_by'' = [] then []
      else '' ORDER BY '' @ join '', '' (map order_text (elems d ''order_by'')))"

definition limit_clause :: "(string \<times> json) list \<Rightarrow> string" where
  "limit_clause d =
     (case present_truthy d ''limit'' of None \<Rightarrow> [] | Some l \<Rightarrow> '' LIMIT '' @ py_str l)"

section \<open>Models and connections for the examples\<close>

text \<open>A model that answers in text: \<^verbatim>\<open>first\<close> to the first request, \<^verbatim>\<open>second\<close> to
  any later one.\<close>

definition text_model :: model where
  "text_model rs =
     (if length rs = 1 then \<lparr>content = Some ''first'', tool_calls = []\<rparr>
      else \<lparr>content = Some ''second'', tool_calls = []\<rparr>)"

text \<open>A model that calls \<^verbatim>\<open>query_database\<close> on table \<^verbatim>\<open>t\<close> first, calls
  \<^verbatim>\<open>execute_query\<close> with a statement of its own when the request forces that tool, and
  answers in text otherwise.\<close>

definition query_model :: model where
  "query_model rs =
     (if length rs = 1
        then \<lparr>content = None,
              tool_calls = [\<lparr>tc_id = ''call_1'', tc_name = ''query_database'',
                             tc_arguments = Some (JDict [(''table'', JStr ''t'')])\<rparr>]\<rparr>
      else if req_tool_choice (last rs) = Some (Function ''execute_query'')
        then \<lparr>content = None,
              tool_calls = [\<lparr>tc_id = ''call_2'', tc_name = ''execute_query'',
                             tc_arguments = Some (JDict [(''query'', JStr ''SELECT 1'')])\<rparr>]\<rparr>
      else \<lparr>content = Some ''done'', tool_calls = []\<rparr>)"

text \<open>A connection that refuses every statement, and one that returns a table of two
  columns and two rows for every statement.\<close>

definition failing_conn :: connection where
  "failing_conn log = Inl ''Parser Error: syntax error''"

definition table_conn :: connection where
  "table_conn log =
     Inr \<lparr>fetchall = Inr [[JStr ''Engineering'', JInt 100], [JStr ''Research'', JInt 250]],
          description = Some [''department'', ''amount'']\<rparr>"






section \<open>The parts of the two compilers\<close>

text \<open>Each loop and each part of \<^verbatim>\<open>build_sql_query\<close> computes what its counterpart in
  \<^verbatim>\<open>build_query\<close> computes.\<close>

lemma sql_join_step_eq: "sql_join_step table sql jn = join_step table sql jn"
proof (cases jn)
  case (JDict jd)
  show ?thesis
    by (cases "dict_get jd ''on'' (JDict [])")
      (simp_all add: JDict sql_join_step_def join_step_def)
qed (simp_all add: sql_join_step_def join_step_def)

lemma sql_join_loop_eq: "sql_join_loop = join_loop"
proof (intro ext)
  fix table js sql
  show "sql_join_loop table js sql = join_loop table js sql"
  proof (induction js arbitrary: sql)
    case Nil
    show ?case by simp
  next
    case (Cons jn js)
    have "sql_join_loop table js = join_loop table js" using Cons.IH by (intro ext)
    then show ?case by (simp add: sql_join_step_eq)
  qed
qed

lemma sql_condition_loop_eq: "sql_condition_loop = condition_loop"
proof (intro ext)
  fix cs acc
  show "sql_condition_loop cs acc = condition_loop cs acc"
  proof (induction cs arbitrary: acc)
    case Nil
    show ?case by simp
  next
    case (Cons c cs)
    have "sql_condition_loop cs = condition_loop cs" using Cons.IH by (intro ext)
    then show ?case by (simp add: sql_condition_step_def condition_step_def)
  qed
qed

lemma sql_order_loop_eq: "sql_order_loop = order_loop"
proof (intro ext)
  fix os acc
  show "sql_order_loop os acc = order_loop os acc"
  proof (induction os arbitrary: acc)
    case Nil
    show ?case by simp
  next
    case (Cons ord os)
    have "sql_order_loop os = order_loop os" using Cons.IH by (intro ext)
    then show ?case by (simp add: sql_order_step_def order_step_def)
  qed
qed

lemma sql_parts_eq:
  shows "sql_add_joins = add_joins"
    and "sql_add_where = add_where"
    and "sql_add_group_by = add_group_by"
    and "sql_add_order_by = add_order_by"
    and "sql_add_limit = add_limit"
  unfolding fun_eq_iff sql_add_joins_def add_joins_def sql_add_where_def add_where_def
    sql_add_group_by_def add_group_by_def sql_add_order_by_def add_order_by_def
    sql_add_limit_def add_limit_def sql_join_loop_eq sql_condition_loop_eq sql_order_loop_eq
  by simp_all

section \<open>The loops of the compiler\<close>

lemma py_get_field: "is_dict j \<Longrightarrow> py_get j k dflt = Some (field j k dflt)"
  by (cases j) simp_all

lemma the_strs_all: "list_all is_str xs \<Longrightarrow> the_strs xs = Some (map py_str xs)"
proof (induction xs)
  case Nil
  show ?case by simp
next
  case (Cons x xs)
  then show ?case by (cases x) simp_all
qed

lemma join_step_wf: "wf_join j \<Longrightarrow> join_step table sql j = Some (sql @ join_clause table j)"
  unfolding wf_join_def join_step_def join_clause_def
  by (cases "field j ''type'' (JStr ''INNER'')") (simp_all add: py_get_field)

lemma join_loop_wf:
  "list_all wf_join js \<Longrightarrow>
   join_loop table js sql = Some (sql @ concat (map (join_clause table) js))"
  by (induction js arbitrary: sql) (simp_all add: join_step_wf)

lemma condition_step_dict:
  "is_dict c \<Longrightarrow> condition_step acc c = Some (acc @ [condition_text c])"
  by (simp add: condition_step_def condition_text_def py_get_field)

lemma condition_loop_dicts:
  "list_all is_dict cs \<Longrightarrow> condition_loop cs acc = Some (acc @ map condition_text cs)"
  by (induction cs arbitrary: acc) (simp_all add: condition_step_dict)

lemma order_step_dict: "is_dict ord \<Longrightarrow> order_step acc ord = Some (acc @ [order_text ord])"
  by (simp add: order_step_def order_text_def py_get_field)

lemma order_loop_dicts:
  "list_all is_dict os \<Longrightarrow> order_loop os acc = Some (acc @ map order_text os)"
  by (induction os arbitrary: acc) (simp_all add: order_step_dict)

section \<open>Each part appends its clause\<close>

lemma add_joins_wf:
  "list_field wf_join d ''joins'' \<Longrightarrow>
   add_joins d (dict_get d ''table'' (JStr [])) sql = Some (sql @ join_clauses d)"
  unfolding list_field_def add_joins_def join_clauses_def elems_def
  by (auto split: option.splits json.splits simp: join_loop_wf)

lemma add_where_wf:
  "list_field is_dict d ''conditions'' \<Longrightarrow> add_where d sql = Some (sql @ where_clause d)"
  unfolding list_field_def add_where_def where_clause_def elems_def
  by (auto split: option.splits json.splits if_splits
      simp: condition_loop_dicts present_truthy_def)

lemma add_group_by_wf:
  "list_field is_str d ''group_by'' \<Longrightarrow> add_group_by d sql = Some (sql @ group_by_clause d)"
  unfolding list_field_def add_group_by_def group_by_clause_def elems_def
  by (auto split: option.splits json.splits if_splits simp: the_strs_all present_truthy_def)

lemma add_order_by_wf:
  "list_field is_dict d ''order_by'' \<Longrightarrow> add_order_by d sql = Some (sql @ order_by_clause d)"
  unfolding list_field_def add_order_by_def order_by_clause_def elems_def
  by (auto split: option.splits json.splits if_splits
      simp: order_loop_dicts present_truthy_def)

lemma add_limit_clause: "add_limit d sql = Some (sql @ limit_clause d)"
  unfolding add_limit_def limit_clause_def by (simp split: option.splits)

lemma columns_wf:
  "wf_query d \<Longrightarrow>
   py_join '', '' (dict_get d ''columns'' (JList [JStr ''*''])) = Some (projection d)"
  unfolding wf_query_def projection_def dict_get_def
  by (auto split: option.splits json.splits simp: the_strs_all)

text \<open>On a well-typed dictionary \<^verbatim>\<open>build_sql_query\<close> returns the clauses one after the
  other.\<close>

lemma build_sql_query_clauses:
  assumes "wf_query d"
  shows "build_sql_query (JDict d) =
           Some (''SELECT '' @ projection d @ '' FROM '' @ py_str (dict_get d ''table'' (JStr []))
                 @ join_clauses d @ where_clause d @ group_by_clause d @ order_by_clause d
                 @ limit_clause d)"
proof -
  from assms have j: "list_field wf_join d ''joins''"
    and c: "list_field is_dict d ''conditions''"
    and g: "list_field is_str d ''group_by''"
    and ob: "list_field is_dict d ''order_by''"
    by (simp_all add: wf_query_def)
  show ?thesis
    by (simp add: sql_parts_eq columns_wf [OF assms] add_joins_wf [OF j] add_where_wf [OF c]
        add_group_by_wf [OF g] add_order_by_wf [OF ob] add_limit_clause)
qed

text \<open>With a truthy table the two compilers have the same outcome.\<close>

lemma build_query_truthy_table:
  "py_truthy (dict_get d ''table'' (JStr [])) \<Longrightarrow>
   build_query (JDict d) = build_sql_query (JDict d)"
  by (simp add: sql_parts_eq)

lemma table_field:
  "map_of d ''table'' = Some (JStr t) \<Longrightarrow> dict_get d ''table'' (JStr []) = JStr t"
  by (simp add: dict_get_def)

section \<open>The order of the fields\<close>

text \<open>A reordering of a dictionary is the same lookup function, and the compilers only
  look fields up.\<close>

lemma map_of_reorder:
  assumes "distinct (map fst d)" and "mset d' = mset d"
  shows "map_of d' = map_of d"
proof -
  from assms(2) have "mset (map fst d') = mset (map fst d)" by simp
  then have "distinct (map fst d')" using assms(1) by (metis mset_eq_imp_distinct_iff)
  moreover have "set d' = set d" using assms(2) by (rule mset_eq_setD)
  ultimately show ?thesis using assms(1) by (simp add: map_of_inject_set)
qed

lemma parts_map_of:
  assumes "map_of d' = map_of d"
  shows "dict_get d' = dict_get d" and "present_truthy d' = present_truthy d"
    and "add_joins d' = add_joins d" and "add_where d' = add_where d"
    and "add_group_by d' = add_group_by d" and "add_order_by d' = add_order_by d"
    and "add_limit d' = add_limit d"
  using assms
  by (simp_all add: fun_eq_iff dict_get_def present_truthy_def add_joins_def add_where_def
      add_group_by_def add_order_by_def add_limit_def)

lemma build_query_map_of:
  assumes "map_of d' = map_of d"
  shows "build_query (JDict d') = build_query (JDict d)"
  unfolding build_query.simps parts_map_of [OF assms] by (rule refl)

lemma build_sql_query_map_of:
  assumes "map_of d' = map_of d"
  shows "build_sql_query (JDict d') = build_sql_query (JDict d)"
  unfolding build_sql_query.simps sql_parts_eq parts_map_of [OF assms] by (rule refl)

text \<open>\<^verbatim>\<open>build_query\<close> returns its comment for every dictionary with well-typed columns
  whose table is missing or falsy.\<close>

lemma build_query_no_table:
  assumes "wf_query d" and "\<not> py_truthy (dict_get d ''table'' (JStr []))"
  shows "build_query (JDict d) = Some ''-- Error: No table specified''"
  using assms(2) by (simp add: columns_wf [OF assms(1)])

section \<open>Claims on the compiler\<close>

text \<open>
  C1. For every well-typed query structure whose table is a non-empty string, and for
  every order in which its fields are given, both compilers return a string that begins
  with \<^verbatim>\<open>SELECT <columns> FROM <table>\<close>, followed by the \<^verbatim>\<open>JOIN\<close> clauses, the
  \<^verbatim>\<open>WHERE\<close> clause, the \<^verbatim>\<open>GROUP BY\<close> clause, the \<^verbatim>\<open>ORDER BY\<close> clause and the
  \<^verbatim>\<open>LIMIT\<close> clause, in this order.
\<close>

theorem compile_clause_order:
  assumes "wf_query d" and "map_of d ''table'' = Some (JStr t)" and "t \<noteq> []"
    and "distinct (map fst d)" and "mset d' = mset d"
  shows "build_query (JDict d') =
           Some (''SELECT '' @ projection d @ '' FROM '' @ t
                 @ join_clauses d @ where_clause d @ group_by_clause d @ order_by_clause d
                 @ limit_clause d)
       \<and> build_sql_query (JDict d') =
           Some (''SELECT '' @ projection d @ '' FROM '' @ t
                 @ join_clauses d @ where_clause d @ group_by_clause d @ order_by_clause d
                 @ limit_clause d)"
proof -
  have m: "map_of d' = map_of d" using assms(4,5) by (rule map_of_reorder)
  have tb: "dict_get d ''table'' (JStr []) = JStr t" using assms(2) by (rule table_field)
  have truthy: "py_truthy (dict_get d ''table'' (JStr []))" using assms(3) by (simp add: tb)
  have s: "build_sql_query (JDict d) =
             Some (''SELECT '' @ projection d @ '' FROM '' @ t
                   @ join_clauses d @ where_clause d @ group_by_clause d @ order_by_clause d
                   @ limit_clause d)"
    using build_sql_query_clauses [OF assms(1)] by (simp add: tb)
  have "build_query (JDict d') = build_sql_query (JDict d)"
    using build_query_map_of [OF m] build_query_truthy_table [OF truthy] by simp
  moreover have "build_sql_query (JDict d') = build_sql_query (JDict d)"
    using m by (rule build_sql_query_map_of)
  ultimately show ?thesis using s by simp
qed

theorem compile_clause_order_witness:
  "build_query (JDict
     [(''limit'', JInt 10),
      (''order_by'', JList [JDict [(''column'', JStr ''n''), (''direction'', JStr ''DESC'')]]),
      (''group_by'', JList [JStr ''a.name'']),
      (''conditions'', JList [JDict [(''column'', JStr ''a.year''), (''operator'', JStr ''>''),
                                    (''value'', JInt 2020)]]),
      (''joins'', JList [JDict [(''table'', JStr ''b''), (''type'', JStr ''left''),
                               (''on'', JDict [(''left_column'', JStr ''id''),
                                              (''right_column'', JStr ''a_id'')])]]),
      (''columns'', JList [JStr ''a.name'', JStr ''n'']),
      (''table'', JStr ''a'')])
   = Some ''SELECT a.name, n FROM a LEFT JOIN b ON a.id = b.a_id WHERE a.year > 2020 GROUP BY a.name ORDER BY n DESC LIMIT 10''"
proof -
  let ?d = "[(''table'', JStr ''a''),
      (''columns'', JList [JStr ''a.name'', JStr ''n'']),
      (''joins'', JList [JDict [(''table'', JStr ''b''), (''type'', JStr ''left''),
                               (''on'', JDict [(''left_column'', JStr ''id''),
                                              (''right_column'', JStr ''a_id'')])]]),
      (''conditions'', JList [JDict [(''column'', JStr ''a.year''), (''operator'', JStr ''>''),
                                    (''value'', JInt 2020)]]),
      (''group_by'', JList [JStr ''a.name'']),
      (''order_by'', JList [JDict [(''column'', JStr ''n''), (''direction'', JStr ''DESC'')]]),
      (''limit'', JInt 10)]"
  let ?d' = "[(''limit'', JInt 10),
      (''order_by'', JList [JDict [(''column'', JStr ''n''), (''direction'', JStr ''DESC'')]]),
      (''group_by'', JList [JStr ''a.name'']),
      (''conditions'', JList [JDict [(''column'', JStr ''a.year''), (''operator'', JStr ''>''),
                                    (''value'', JInt 2020)]]),
      (''joins'', JList [JDict [(''table'', JStr ''b''), (''type'', JStr ''left''),
                               (''on'', JDict [(''left_column'', JStr ''id''),
                                              (''right_column'', JStr ''a_id'')])]]),
      (''columns'', JList [JStr ''a.name'', JStr ''n'']),
      (''table'', JStr ''a'')]"
  have wf: "wf_query ?d"
    by (simp add: wf_query_def list_field_def present_truthy_def wf_join_def dict_get_def)
  have tb: "map_of ?d ''table'' = Some (JStr ''a'')" by simp
  have ne: "''a'' \<noteq> []" by simp
  have di: "distinct (map fst ?d)" by simp
  have "?d' = rev ?d" by simp
  then have re: "mset ?d' = mset ?d" by (simp only: mset_rev)
  have "build_query (JDict ?d') =
          Some (''SELECT '' @ projection ?d @ '' FROM '' @ ''a''
                @ join_clauses ?d @ where_clause ?d @ group_by_clause ?d @ order_by_clause ?d
                @ limit_clause ?d)"
    using compile_clause_order [OF wf tb ne di re] by (rule conjunct1)
  also have "\<dots> = Some ''SELECT a.name, n FROM a LEFT JOIN b ON a.id = b.a_id WHERE a.year > 2020 GROUP BY a.name ORDER BY n DESC LIMIT 10''"
    by code_simp
  finally show ?thesis .
qed

text \<open>
  C2. A query structure with the empty string as its table: \<^verbatim>\<open>build_query\<close> returns the
  comment \<^verbatim>\<open>-- Error: No table specified\<close>, \<^verbatim>\<open>build_sql_query\<close> returns a
  \<^verbatim>\<open>SELECT\<close> statement with no table.
\<close>

theorem build_sql_query_empty_table:
  "build_query (JDict [(''table'', JStr ''''), (''columns'', JList [JStr ''*''])])
     = Some ''-- Error: No table specified''
   \<and> build_sql_query (JDict [(''table'', JStr ''''), (''columns'', JList [JStr ''*''])])
     = Some ''SELECT * FROM ''"
  by code_simp

text \<open>
  C3. A query structure with table \<^verbatim>\<open>t\<close> and an empty list of columns: both compilers
  return \<^verbatim>\<open>SELECT  FROM t\<close>, with an empty projection.
\<close>

theorem empty_columns_projection:
  "build_query (JDict [(''table'', JStr ''t''), (''columns'', JList [])]) = Some ''SELECT  FROM t''
   \<and> build_sql_query (JDict [(''table'', JStr ''t''), (''columns'', JList [])])
     = Some ''SELECT  FROM t''"
  by code_simp

text \<open>
  C4. For every well-typed query structure with a non-empty table, the compiled string has
  no \<^verbatim>\<open>WHERE\<close> clause when there is no condition, and otherwise has, between the joins
  and \<^verbatim>\<open>GROUP BY\<close>, the conditions joined by \<^verbatim>\<open>AND\<close> after \<^verbatim>\<open>WHERE\<close>. In each condition
  a string value is put between single quotes unless its lower-cased form starts with
  \<^verbatim>\<open>select\<close>, in which case it is left as it is; a value that is not a string is its
  \<^verbatim>\<open>str\<close>, without quotes.
\<close>

theorem conditions_rendering:
  assumes "wf_query d" and "map_of d ''table'' = Some (JStr t)" and "t \<noteq> []"
  shows "build_query (JDict d) =
           Some (''SELECT '' @ projection d @ '' FROM '' @ t @ join_clauses d
                 @ (if elems d ''conditions'' = [] then []
                    else '' WHERE '' @ join '' AND '' (map condition_text (elems d ''conditions'')))
                 @ group_by_clause d @ order_by_clause d @ limit_clause d)
       \<and> (\<forall>c \<in> set (elems d ''conditions'').
            condition_text c =
              py_str (field c ''column'' (JStr [])) @ '' ''
              @ py_str (field c ''operator'' (JStr ''='')) @ '' ''
              @ (case field c ''value'' (JStr []) of
                   JStr s \<Rightarrow> if startswith (lower s) ''select'' then s
                             else [CHR 0x27] @ s @ [CHR 0x27]
                 | JInt i \<Rightarrow> str_int i
                 | v \<Rightarrow> py_str v))"
proof -
  have tb: "dict_get d ''table'' (JStr []) = JStr t" using assms(2) by (rule table_field)
  have truthy: "py_truthy (dict_get d ''table'' (JStr []))" using assms(3) by (simp add: tb)
  have "build_query (JDict d) = build_sql_query (JDict d)"
    using truthy by (rule build_query_truthy_table)
  then have "build_query (JDict d) =
           Some (''SELECT '' @ projection d @ '' FROM '' @ t @ join_clauses d
                 @ where_clause d @ group_by_clause d @ order_by_clause d @ limit_clause d)"
    using build_sql_query_clauses [OF assms(1)] by (simp add: tb)
  moreover have "condition_text c =
              py_str (field c ''column'' (JStr [])) @ '' ''
              @ py_str (field c ''operator'' (JStr ''='')) @ '' ''
              @ (case field c ''value'' (JStr []) of
                   JStr s \<Rightarrow> if startswith (lower s) ''select'' then s
                             else [CHR 0x27] @ s @ [CHR 0x27]
                 | JInt i \<Rightarrow> str_int i
                 | v \<Rightarrow> py_str v)" for c
    by (cases "field c ''value'' (JStr [])") (simp_all add: condition_text_def)
  ultimately show ?thesis by (simp add: where_clause_def)
qed

theorem conditions_rendering_witness:
  "build_query (JDict
     [(''table'', JStr ''staff''),
      (''conditions'', JList
         [JDict [(''column'', JStr ''department''), (''operator'', JStr ''=''),
                 (''value'', JStr ''Engineering'')],
          JDict [(''column'', JStr ''id''), (''operator'', JStr ''IN''),
                 (''value'', JStr ''SELECT id FROM x'')],
          JDict [(''column'', JStr ''age''), (''operator'', JStr ''>''),
                 (''value'', JInt 30)]])])
   = Some (''SELECT * FROM staff WHERE department = '' @ [CHR 0x27] @ ''Engineering''
           @ [CHR 0x27] @ '' AND id IN SELECT id FROM x AND age > 30'')"
proof -
  let ?d = "[(''table'', JStr ''staff''),
      (''conditions'', JList
         [JDict [(''column'', JStr ''department''), (''operator'', JStr ''=''),
                 (''value'', JStr ''Engineering'')],
          JDict [(''column'', JStr ''id''), (''operator'', JStr ''IN''),
                 (''value'', JStr ''SELECT id FROM x'')],
          JDict [(''column'', JStr ''age''), (''operator'', JStr ''>''),
                 (''value'', JInt 30)]])]"
  have wf: "wf_query ?d"
    by (simp add: wf_query_def list_field_def present_truthy_def)
  have tb: "map_of ?d ''table'' = Some (JStr ''staff'')" by simp
  have ne: "''staff'' \<noteq> []" by simp
  have "build_query (JDict ?d) =
           Some (''SELECT '' @ projection ?d @ '' FROM '' @ ''staff'' @ join_clauses ?d
                 @ (if elems ?d ''conditions'' = [] then []
                    else '' WHERE '' @ join '' AND '' (map condition_text (elems ?d ''conditions'')))
                 @ group_by_clause ?d @ order_by_clause ?d @ limit_clause ?d)"
    using conditions_rendering [OF wf tb ne] by (rule conjunct1)
  also have "\<dots> = Some (''SELECT * FROM staff WHERE department = '' @ [CHR 0x27] @ ''Engineering''
           @ [CHR 0x27] @ '' AND id IN SELECT id FROM x AND age > 30'')"
    by code_simp
  finally show ?thesis .
qed

text \<open>
  C5. The query structure of the budgets scenario compiles to a statement in which the
  string value \<^verbatim>\<open>2023\<close> is between single quotes, as every string value is.
\<close>

theorem budgets_scenario:
  "build_query (JDict
     [(''table'', JStr ''budgets''),
      (''columns'', JList [JStr ''department'', JStr ''amount'']),
      (''conditions'', JList
         [JDict [(''column'', JStr ''year''), (''operator'', JStr ''=''),
                 (''value'', JStr ''2023'')],
          JDict [(''column'', JStr ''department''), (''operator'', JStr ''=''),
                 (''value'', JStr ''Engineering'')]])])
   = Some (''SELECT department, amount FROM budgets WHERE year = '' @ [CHR 0x27] @ ''2023''
           @ [CHR 0x27] @ '' AND department = '' @ [CHR 0x27] @ ''Engineering'' @ [CHR 0x27])"
  by code_simp

theorem budgets_scenario_counterexample:
  "build_query (JDict
     [(''table'', JStr ''budgets''),
      (''columns'', JList [JStr ''department'', JStr ''amount'']),
      (''conditions'', JList
         [JDict [(''column'', JStr ''year''), (''operator'', JStr ''=''),
                 (''value'', JStr ''2023'')],
          JDict [(''column'', JStr ''department''), (''operator'', JStr ''=''),
                 (''value'', JStr ''Engineering'')]])])
   \<noteq> Some (''SELECT department, amount FROM budgets WHERE year = 2023 AND department = ''
           @ [CHR 0x27] @ ''Engineering'' @ [CHR 0x27])"
  by code_simp

text \<open>
  C9. For every query structure whose table is a non-empty string, \<^verbatim>\<open>build_query\<close>
  and \<^verbatim>\<open>build_sql_query\<close> have the same outcome: they return the same string, or both
  raise; on a well-typed structure they return a string.
\<close>

theorem compilers_agree:
  assumes "map_of d ''table'' = Some (JStr t)" and "t \<noteq> []"
  shows "build_query (JDict d) = build_sql_query (JDict d)
       \<and> (wf_query d \<longrightarrow> (\<exists>sql. build_query (JDict d) = Some sql))"
proof -
  have tb: "dict_get d ''table'' (JStr []) = JStr t" using assms(1) by (rule table_field)
  have truthy: "py_truthy (dict_get d ''table'' (JStr []))" using assms(2) by (simp add: tb)
  have eq: "build_query (JDict d) = build_sql_query (JDict d)"
    using truthy by (rule build_query_truthy_table)
  show ?thesis using eq build_sql_query_clauses [of d] by simp
qed

theorem compilers_agree_witness:
  "build_query (JDict [(''table'', JStr ''a''), (''limit'', JInt 5)]) = Some ''SELECT * FROM a LIMIT 5''
   \<and> build_sql_query (JDict [(''table'', JStr ''a''), (''limit'', JInt 5)])
       = Some ''SELECT * FROM a LIMIT 5''"
proof -
  let ?d = "[(''table'', JStr ''a''), (''limit'', JInt 5)]"
  have tb: "map_of ?d ''table'' = Some (JStr ''a'')" by simp
  have ne: "''a'' \<noteq> []" by simp
  have b: "build_sql_query (JDict ?d) = Some ''SELECT * FROM a LIMIT 5''"
    by code_simp
  have "build_query (JDict ?d) = build_sql_query (JDict ?d)"
    using compilers_agree [OF tb ne] by (rule conjunct1)
  with b show ?thesis by (simp del: build_query.simps build_sql_query.simps)
qed

text \<open>
  C10. A condition that is a dictionary never makes the compiler fail, whichever of its
  fields are missing: a missing operator is \<^verbatim>\<open>=\<close> and a missing value is the empty
  string between single quotes. A well-typed query structure with such conditions and a
  non-empty table compiles to a string, by either compiler.
\<close>

theorem condition_defaults:
  assumes "wf_query d" and "map_of d ''table'' = Some (JStr t)" and "t \<noteq> []"
    and "map_of d ''conditions'' = Some (JList (map JDict cs))"
  shows "(\<exists>sql. build_query (JDict d) = Some sql \<and> build_sql_query (JDict d) = Some sql)
       \<and> (\<forall>c \<in> set cs. \<forall>conditions.
            condition_step conditions (JDict c) =
              Some (conditions @
                [py_str (dict_get c ''column'' (JStr [])) @ '' ''
                 @ (case map_of c ''operator'' of None \<Rightarrow> ''='' | Some v \<Rightarrow> py_str v) @ '' ''
                 @ (case map_of c ''value'' of
                      None \<Rightarrow> [CHR 0x27, CHR 0x27]
                    | Some v \<Rightarrow> format_value v)]))"
proof -
  have tb: "dict_get d ''table'' (JStr []) = JStr t" using assms(2) by (rule table_field)
  have truthy: "py_truthy (dict_get d ''table'' (JStr []))" using assms(3) by (simp add: tb)
  have "build_query (JDict d) = build_sql_query (JDict d)"
    using truthy by (rule build_query_truthy_table)
  then have total: "\<exists>sql. build_query (JDict d) = Some sql \<and> build_sql_query (JDict d) = Some sql"
    using build_sql_query_clauses [OF assms(1)] by simp
  have "condition_step conditions (JDict c) =
              Some (conditions @
                [py_str (dict_get c ''column'' (JStr [])) @ '' ''
                 @ (case map_of c ''operator'' of None \<Rightarrow> ''='' | Some v \<Rightarrow> py_str v) @ '' ''
                 @ (case map_of c ''value'' of
                      None \<Rightarrow> [CHR 0x27, CHR 0x27]
                    | Some v \<Rightarrow> format_value v)])" for c conditions
    by (simp add: condition_step_def dict_get_def startswith_def lower_def
        split: option.splits)
  then show ?thesis using total by simp
qed

theorem condition_defaults_witness:
  "build_query (JDict [(''table'', JStr ''t''),
                       (''conditions'', JList (map JDict [[(''column'', JStr ''a'')]]))])
     = Some (''SELECT * FROM t WHERE a = '' @ [CHR 0x27, CHR 0x27])
   \<and> condition_step [] (JDict [(''column'', JStr ''a'')])
     = Some [''a = '' @ [CHR 0x27, CHR 0x27]]"
proof -
  let ?d = "[(''table'', JStr ''t''),
             (''conditions'', JList (map JDict [[(''column'', JStr ''a'')]]))]"
  have wf: "wf_query ?d" by (simp add: wf_query_def list_field_def present_truthy_def)
  have tb: "map_of ?d ''table'' = Some (JStr ''t'')" by simp
  have ne: "''t'' \<noteq> []" by simp
  have cs: "map_of ?d ''conditions'' = Some (JList (map JDict [[(''column'', JStr ''a'')]]))"
    by simp
  have b: "build_query (JDict ?d) = Some (''SELECT * FROM t WHERE a = '' @ [CHR 0x27, CHR 0x27])"
    by code_simp
  have "\<forall>c \<in> set [[(''column'', JStr ''a'')]]. \<forall>conditions.
            condition_step conditions (JDict c) =
              Some (conditions @
                [py_str (dict_get c ''column'' (JStr [])) @ '' ''
                 @ (case map_of c ''operator'' of None \<Rightarrow> ''='' | Some v \<Rightarrow> py_str v) @ '' ''
                 @ (case map_of c ''value'' of
                      None \<Rightarrow> [CHR 0x27, CHR 0x27]
                    | Some v \<Rightarrow> format_value v)])"
    using condition_defaults [OF wf tb ne cs] by (rule conjunct2)
  then have "condition_step [] (JDict [(''column'', JStr ''a'')])
     = Some [''a = '' @ [CHR 0x27, CHR 0x27]]"
    by (simp add: dict_get_def)
  with b show ?thesis by (simp del: build_query.simps)
qed

section \<open>Claims on the executor\<close>
















section \<open>The requests and statements of a run\<close>

text \<open>The loops of \<^verbatim>\<open>process_question\<close> only add to the requests made, and a call of
  \<^verbatim>\<open>query_database\<close> adds a request that forces \<^verbatim>\<open>execute_query\<close>.\<close>

lemma exec_call_step_requests:
  "exec_call_step conn st c = Some st' \<Longrightarrow> requests st' = requests st"
  by (auto simp: exec_call_step_def split: if_splits bind_splits prod.splits)

lemma exec_call_loop_requests:
  "exec_call_loop conn cs st = Some st' \<Longrightarrow> requests st' = requests st"
proof (induction cs arbitrary: st)
  case Nil
  then show ?case by simp
next
  case (Cons c cs)
  from Cons.prems obtain st1 where s1: "exec_call_step conn st c = Some st1"
    and rest: "exec_call_loop conn cs st1 = Some st'"
    by (auto split: bind_splits)
  from Cons.IH [OF rest] exec_call_step_requests [OF s1] show ?case by simp
qed

lemma tool_call_step_query_database:
  assumes "tc_name tc = ''query_database''" and "tool_call_step llm conn st tc = Some st'"
  shows "\<exists>sql. requests st' = requests st @
           [\<lparr>req_messages = messages st
               @ [Tool (tc_id tc) ''query_database'' (JDict [(''sql'', JStr sql)])],
             req_tools = Some tools, req_tool_choice = Some (Function ''execute_query'')\<rparr>]"
  using assms
  by (auto simp: tool_call_step_def create_def Let_def split: bind_splits
      dest!: exec_call_loop_requests)

lemma tool_call_step_other:
  assumes "tc_name tc \<noteq> ''query_database''" and "tool_call_step llm conn st tc = Some st'"
  shows "st' = st"
  using assms by (auto simp: tool_call_step_def split: bind_splits)

lemma tool_call_step_requests:
  assumes "tool_call_step llm conn st tc = Some st'"
  shows "\<exists>more. requests st' = requests st @ more"
proof (cases "tc_name tc = ''query_database''")
  case True
  from tool_call_step_query_database [OF True assms] show ?thesis by blast
next
  case False
  from tool_call_step_other [OF False assms] show ?thesis by simp
qed

lemma tool_call_loop_requests:
  "tool_call_loop llm conn tcs st = Some st' \<Longrightarrow> \<exists>more. requests st' = requests st @ more"
proof (induction tcs arbitrary: st)
  case Nil
  then show ?case by simp
next
  case (Cons tc tcs)
  from Cons.prems obtain st1 where s1: "tool_call_step llm conn st tc = Some st1"
    and rest: "tool_call_loop llm conn tcs st1 = Some st'"
    by (auto split: bind_splits)
  from tool_call_step_requests [OF s1] obtain m1 where "requests st1 = requests st @ m1" ..
  moreover from Cons.IH [OF rest] obtain m2 where "requests st' = requests st1 @ m2" ..
  ultimately show ?case by simp
qed

lemma process_question_forces_execute_query:
  assumes "tool_calls (llm [\<lparr>req_messages = [pq_system sd, User q], req_tools = Some tools,
                               req_tool_choice = Some Auto\<rparr>]) = tc # rest"
    and "tc_name tc = ''query_database''"
    and "process_question llm conn sd q = Some st"
  shows "1 < length (requests st)
       \<and> req_tools (requests st ! 1) = Some tools
       \<and> req_tool_choice (requests st ! 1) = Some (Function ''execute_query'')"
proof -
  let ?r1 = "\<lparr>req_messages = [pq_system sd, User q], req_tools = Some tools,
               req_tool_choice = Some Auto\<rparr>"
  let ?st0 = "\<lparr>messages = [pq_system sd, User q, Assistant (llm [?r1])], requests = [?r1],
               statements = [],
               results = \<lparr>question = q, sql_query = None, query_results = None,
                          final_answer = None\<rparr>\<rparr>"
  from assms(3) obtain st2 where loop: "tool_call_loop llm conn (tc # rest) ?st0 = Some st2"
    and fin: "\<exists>more. requests st = requests st2 @ more"
    by (auto simp: process_question_def create_def Let_def assms(1) split: bind_splits)
  from loop obtain st1 where s1: "tool_call_step llm conn ?st0 tc = Some st1"
    and rest: "tool_call_loop llm conn rest st1 = Some st2"
    by (auto split: bind_splits)
  from tool_call_step_query_database [OF assms(2) s1] obtain sql where
    "requests st1 = [?r1, \<lparr>req_messages = messages ?st0
               @ [Tool (tc_id tc) ''query_database'' (JDict [(''sql'', JStr sql)])],
             req_tools = Some tools, req_tool_choice = Some (Function ''execute_query'')\<rparr>]"
    by auto
  moreover from tool_call_loop_requests [OF rest] obtain m where "requests st2 = requests st1 @ m" ..
  moreover from fin obtain m' where "requests st = requests st2 @ m'" ..
  ultimately show ?thesis by simp
qed

text \<open>A statement given to the connection by \<^verbatim>\<open>execute_query\<close> is the statement it was
  called with, once or twice.\<close>

lemma execute_query_log:
  "snd (execute_query conn log query) = log @ [query]
   \<or> snd (execute_query conn log query) = log @ [query, query]"
  by (simp add: execute_query_def try_execute_def split: sum.splits option.splits)

text \<open>The statement that a call of \<^verbatim>\<open>execute_query\<close> in the follow-up message runs is
  the one in the arguments of that call.\<close>

lemma exec_call_step_statement:
  assumes "tc_name c = ''execute_query''" and "tc_arguments c = Some (JDict a)"
  shows "\<exists>st'. exec_call_step conn st c = Some st'
           \<and> statements st' = snd (execute_query conn (statements st) (dict_get a ''query'' JNull))
           \<and> query_results (results st')
               = Some (fst (execute_query conn (statements st) (dict_get a ''query'' JNull)))
           \<and> sql_query (results st') = sql_query (results st)"
  using assms by (simp add: exec_call_step_def split: prod.splits)

text \<open>The loops of \<^verbatim>\<open>process_user_question\<close>: the request after a call of
  \<^verbatim>\<open>query_database\<close> leaves the choice of a tool to the model.\<close>

lemma follow_tool_call_step_requests:
  "follow_tool_call_step conn st c = Some st' \<Longrightarrow> requests st' = requests st"
  by (auto simp: follow_tool_call_step_def split: if_splits bind_splits prod.splits)

lemma follow_tool_call_loop_requests:
  "follow_tool_call_loop conn cs st = Some st' \<Longrightarrow> requests st' = requests st"
proof (induction cs arbitrary: st)
  case Nil
  then show ?case by simp
next
  case (Cons c cs)
  from Cons.prems obtain st1 where s1: "follow_tool_call_step conn st c = Some st1"
    and rest: "follow_tool_call_loop conn cs st1 = Some st'"
    by (auto split: bind_splits)
  from Cons.IH [OF rest] follow_tool_call_step_requests [OF s1] show ?case by simp
qed

lemma uq_tool_call_step_query_database:
  assumes "tc_name tc = ''query_database''" and "uq_tool_call_step llm conn st tc = Some st'"
  shows "\<exists>sql. requests st' = requests st @
           [\<lparr>req_messages = messages st
               @ [Tool (tc_id tc) ''query_database'' (JDict [(''query'', JStr sql)])],
             req_tools = Some tools, req_tool_choice = Some Auto\<rparr>]"
  using assms
  by (auto simp: uq_tool_call_step_def create_def Let_def split: bind_splits
      dest!: follow_tool_call_loop_requests)

section \<open>Claims on the orchestrator\<close>

text \<open>
  C7. For every question whose first model response has no tool calls,
  \<^verbatim>\<open>process_question\<close> gives no statement to the connection and returns
  \<^verbatim>\<open>sql_query\<close> and \<^verbatim>\<open>query_results\<close> as \<^verbatim>\<open>None\<close>; it makes a second request, without
  tools, on the conversation extended by the first response, and \<^verbatim>\<open>final_answer\<close> is
  the content of the response to that second request.
\<close>

theorem no_tool_calls_answer:
  assumes "tool_calls (llm [\<lparr>req_messages = [pq_system sd, User q], req_tools = Some tools,
                               req_tool_choice = Some Auto\<rparr>]) = []"
  shows "\<exists>st. process_question llm conn sd q = Some st
           \<and> statements st = []
           \<and> sql_query (results st) = None
           \<and> query_results (results st) = None
           \<and> requests st =
               [\<lparr>req_messages = [pq_system sd, User q], req_tools = Some tools,
                 req_tool_choice = Some Auto\<rparr>,
                \<lparr>req_messages =
                   [pq_system sd, User q,
                    Assistant (llm [\<lparr>req_messages = [pq_system sd, User q],
                                      req_tools = Some tools, req_tool_choice = Some Auto\<rparr>])],
                 req_tools = None, req_tool_choice = None\<rparr>]
           \<and> final_answer (results st) = content (llm (requests st))"
  using assms by (simp add: process_question_def create_def Let_def)

theorem no_tool_calls_answer_witness:
  "map_option (\<lambda>st. (statements st, sql_query (results st), query_results (results st),
                     final_answer (results st)))
     (process_question text_model failing_conn ''schema'' ''How many?'')
   = Some ([], None, None, Some ''second'')"
proof -
  have h: "tool_calls (text_model [\<lparr>req_messages = [pq_system ''schema'', User ''How many?''],
              req_tools = Some tools, req_tool_choice = Some Auto\<rparr>]) = []"
    by (simp add: text_model_def)
  from h no_tool_calls_answer
    [where llm = text_model and sd = "''schema''" and q = "''How many?''" and conn = failing_conn]
  show ?thesis
    by (auto simp: text_model_def)
qed

theorem no_tool_calls_answer_counterexample:
  "tool_calls (text_model [\<lparr>req_messages = [pq_system ''schema'', User ''How many?''],
              req_tools = Some tools, req_tool_choice = Some Auto\<rparr>]) = []
   \<and> content (text_model [\<lparr>req_messages = [pq_system ''schema'', User ''How many?''],
              req_tools = Some tools, req_tool_choice = Some Auto\<rparr>]) = Some ''first''
   \<and> map_option (\<lambda>st. final_answer (results st))
       (process_question text_model failing_conn ''schema'' ''How many?'')
     = Some (Some ''second'')"
  by (simp add: process_question_def create_def Let_def text_model_def)

text \<open>
  C8. A run in which the first response calls \<^verbatim>\<open>query_database\<close>: the second request
  of \<^verbatim>\<open>process_user_question\<close> has the tool choice \<^verbatim>\<open>auto\<close>, and with a model that then
  answers in text no statement is run; the second request of \<^verbatim>\<open>process_question\<close>
  forces \<^verbatim>\<open>execute_query\<close>, and the statement run is the one of that forced call, the
  compiler's statement being only reported as \<^verbatim>\<open>sql_query\<close>.
\<close>

theorem follow_up_tool_choice:
  "map_option (\<lambda>(ret, st). (map req_tool_choice (requests st), statements st,
                             ret_query_results ret))
     (process_user_question query_model table_conn ''schema'' ''How many?'')
   = Some ([Some Auto, Some Auto, None], [], None)
   \<and> map_option (\<lambda>st. (map req_tool_choice (requests st), statements st,
                        sql_query (results st)))
     (process_question query_model table_conn ''schema'' ''How many?'')
   = Some ([Some Auto, Some (Function ''execute_query''), None],
           [JStr ''SELECT 1'', JStr ''SELECT 1''], Some ''SELECT * FROM t'')"
  by code_simp

end
